theory Spec2Isabelle
  imports Complex_Main
begin

section \<open>JavaScript numbers\<close>

text \<open>
  A value of type \<open>number\<close> is \<open>NaN\<close>, one of the two infinities, or a finite value.
  Finite values are idealised as reals: the rounding of IEEE doubles, overflow of a finite
  result to an infinity and the sign of zero are not represented. Comparisons follow
  IEEE 754 (every comparison with \<open>NaN\<close> is false).
\<close>

datatype jsnum = NaN | NegInf | Fin real | PosInf

text \<open>\<open>Number.isNaN\<close> and \<open>Number.isFinite\<close> on a value whose type is \<open>number\<close>.\<close>

fun isNaN :: "jsnum \<Rightarrow> bool" where
  "isNaN NaN = True"
| "isNaN _ = False"

fun isFinite :: "jsnum \<Rightarrow> bool" where
  "isFinite (Fin _) = True"
| "isFinite _ = False"

text \<open>The operators \<open><\<close> and \<open>>\<close>.\<close>

fun js_lt :: "jsnum \<Rightarrow> jsnum \<Rightarrow> bool" where
  "js_lt NaN _ = False"
| "js_lt _ NaN = False"
| "js_lt _ NegInf = False"
| "js_lt NegInf _ = True"
| "js_lt PosInf _ = False"
| "js_lt (Fin a) (Fin b) = (a < b)"
| "js_lt (Fin a) PosInf = True"

definition js_gt :: "jsnum \<Rightarrow> jsnum \<Rightarrow> bool" where
  "js_gt a b = js_lt b a"

text \<open>The operators \<open>+\<close>, \<open>-\<close>, \<open>*\<close> and \<open>/\<close>.\<close>

fun js_neg :: "jsnum \<Rightarrow> jsnum" where
  "js_neg NaN = NaN"
| "js_neg NegInf = PosInf"
| "js_neg (Fin a) = Fin (- a)"
| "js_neg PosInf = NegInf"

fun js_add :: "jsnum \<Rightarrow> jsnum \<Rightarrow> jsnum" where
  "js_add NaN _ = NaN"
| "js_add _ NaN = NaN"
| "js_add (Fin a) (Fin b) = Fin (a + b)"
| "js_add PosInf NegInf = NaN"
| "js_add NegInf PosInf = NaN"
| "js_add PosInf _ = PosInf"
| "js_add _ PosInf = PosInf"
| "js_add NegInf _ = NegInf"
| "js_add _ NegInf = NegInf"

definition js_sub :: "jsnum \<Rightarrow> jsnum \<Rightarrow> jsnum" where
  "js_sub a b = js_add a (js_neg b)"

text \<open>The sign of a number that is not \<open>NaN\<close>; zero counts as positive zero.\<close>

fun js_sign :: "jsnum \<Rightarrow> int" where
  "js_sign NaN = 0"
| "js_sign NegInf = - 1"
| "js_sign (Fin a) = (if a < 0 then - 1 else if a = 0 then 0 else 1)"
| "js_sign PosInf = 1"

definition signed_inf :: "int \<Rightarrow> jsnum" where
  "signed_inf s = (if s = 0 then NaN else if 0 < s then PosInf else NegInf)"

fun js_mul :: "jsnum \<Rightarrow> jsnum \<Rightarrow> jsnum" where
  "js_mul NaN _ = NaN"
| "js_mul _ NaN = NaN"
| "js_mul (Fin a) (Fin b) = Fin (a * b)"
| "js_mul a b = signed_inf (js_sign a * js_sign b)"

fun js_div :: "jsnum \<Rightarrow> jsnum \<Rightarrow> jsnum" where
  "js_div NaN _ = NaN"
| "js_div _ NaN = NaN"
| "js_div (Fin a) (Fin b) = (if b = 0 then signed_inf (js_sign (Fin a)) else Fin (a / b))"
| "js_div (Fin a) _ = Fin 0"
| "js_div a (Fin b) = signed_inf (js_sign a * (if b < 0 then - 1 else 1))"
| "js_div _ _ = NaN"

text \<open>\<open>Math.min\<close> and \<open>Math.max\<close> of two arguments.\<close>

definition Math_min :: "jsnum \<Rightarrow> jsnum \<Rightarrow> jsnum" where
  "Math_min a b = (if isNaN a \<or> isNaN b then NaN else if js_lt b a then b else a)"

definition Math_max :: "jsnum \<Rightarrow> jsnum \<Rightarrow> jsnum" where
  "Math_max a b = (if isNaN a \<or> isNaN b then NaN else if js_lt a b then b else a)"

text \<open>
  \<open>Number(v.toFixed(2))\<close>. For a finite \<open>v\<close> below \<open>10^21\<close> in magnitude, \<open>toFixed(2)\<close>
  prints the integer \<open>n\<close> with \<open>n / 100\<close> nearest to the magnitude of \<open>v\<close> and restores
  the sign; from \<open>10^21\<close> on, and for \<open>NaN\<close> and the infinities, it prints the number
  itself, which \<open>Number\<close> reads back.

  \<open>toFixed\<close> reads the double that stands for \<open>v\<close>, and takes the larger \<open>n\<close> when that
  double is exactly half way. Where the idealised value is half way between two
  hundredths, the double the source holds can lie below it: \<open>0.625 + 0.1\<close> is
  \<open>0.72499999999999997...\<close> as a double and prints \<open>0.72\<close>. The reals do not tell which
  side the double is on, so the model takes it as the parameter \<open>below\<close>: at a tie,
  \<open>below r\<close> says that the double lies below \<open>r\<close>, and the smaller \<open>n\<close> is printed.
\<close>

definition toFixed2 :: "(real \<Rightarrow> bool) \<Rightarrow> real \<Rightarrow> real" where
  "toFixed2 below r =
     (if 10 ^ 21 \<le> \<bar>r\<bar> then r
      else sgn r *
        (of_int (if frac (\<bar>r\<bar> * 100) = 1 / 2 \<and> below r then \<lfloor>\<bar>r\<bar> * 100\<rfloor>
                 else \<lfloor>\<bar>r\<bar> * 100 + 1 / 2\<rfloor>) / 100))"

fun Number_toFixed2 :: "(real \<Rightarrow> bool) \<Rightarrow> jsnum \<Rightarrow> jsnum" where
  "Number_toFixed2 below (Fin r) = Fin (toFixed2 below r)"
| "Number_toFixed2 below v = v"

text \<open>
  \<open>clampPercent\<close>: the canvas, the sidebar and the wheel modal each declare this same
  function (Home.tsx lines 328, 579 and 1026).
\<close>

definition clampPercent :: "jsnum \<Rightarrow> jsnum" where
  "clampPercent v =
     (if isNaN v then Fin 0
      else if js_lt v (Fin 0) then Fin 0
      else if js_gt v (Fin 100) then Fin 100
      else v)"

text \<open>Membership of the closed interval from 0 to 100.\<close>

fun in_percent :: "jsnum \<Rightarrow> bool" where
  "in_percent (Fin r) = (0 \<le> r \<and> r \<le> 100)"
| "in_percent _ = False"


section \<open>Data model\<close>

datatype color = Cyan | Emerald | Amber

datatype dashStyle = Solid | Dashed | Dotted

record segment =
  seg_id :: string
  seg_code :: string
  seg_title :: string
  seg_details :: string
  seg_top :: jsnum
  seg_left :: jsnum
  seg_width :: jsnum
  seg_height :: jsnum
  seg_color :: color

record point =
  pt_x :: jsnum
  pt_y :: jsnum

record polyline =
  pl_id :: string
  pl_label :: string
  pl_description :: string
  pl_color :: color
  pl_strokeWidth :: jsnum
  pl_dashStyle :: dashStyle
  pl_points :: "point list"

definition geometry_ok :: "segment \<Rightarrow> bool" where
  "geometry_ok seg =
     (in_percent (seg_top seg) \<and> in_percent (seg_left seg) \<and>
      in_percent (seg_width seg) \<and> in_percent (seg_height seg))"

text \<open>\<open>Partial<Segment>\<close>: each field present or absent; \<open>{ ...segment, ...patch }\<close>.\<close>

record segment_patch =
  p_id :: "string option"
  p_code :: "string option"
  p_title :: "string option"
  p_details :: "string option"
  p_top :: "jsnum option"
  p_left :: "jsnum option"
  p_width :: "jsnum option"
  p_height :: "jsnum option"
  p_color :: "color option"

definition no_patch :: segment_patch where
  "no_patch =
     \<lparr>p_id = None, p_code = None, p_title = None, p_details = None, p_top = None,
      p_left = None, p_width = None, p_height = None, p_color = None\<rparr>"

definition or_else :: "'a option \<Rightarrow> 'a \<Rightarrow> 'a" where
  "or_else v d = (case v of None \<Rightarrow> d | Some x \<Rightarrow> x)"

definition spread :: "segment \<Rightarrow> segment_patch \<Rightarrow> segment" where
  "spread seg patch =
     \<lparr>seg_id = or_else (p_id patch) (seg_id seg),
      seg_code = or_else (p_code patch) (seg_code seg),
      seg_title = or_else (p_title patch) (seg_title seg),
      seg_details = or_else (p_details patch) (seg_details seg),
      seg_top = or_else (p_top patch) (seg_top seg),
      seg_left = or_else (p_left patch) (seg_left seg),
      seg_width = or_else (p_width patch) (seg_width seg),
      seg_height = or_else (p_height patch) (seg_height seg),
      seg_color = or_else (p_color patch) (seg_color seg)\<rparr>"

text \<open>A patch whose geometry values, where present, are within 0 and 100.\<close>

definition patch_in_range :: "segment_patch \<Rightarrow> bool" where
  "patch_in_range patch =
     (in_percent (or_else (p_top patch) (Fin 0)) \<and> in_percent (or_else (p_left patch) (Fin 0)) \<and>
      in_percent (or_else (p_width patch) (Fin 0)) \<and> in_percent (or_else (p_height patch) (Fin 0)))"


section \<open>JSON values and the import validator\<close>

text \<open>
  The values \<open>JSON.parse\<close> can return. An object is its list of own properties; reading
  a property that is absent gives \<open>undefined\<close>, here \<open>None\<close>. An array has none of the
  properties the validator reads.
\<close>

datatype json =
  JNull | JBool bool | JNum jsnum | JStr string | JArr "json list" | JObj "(string \<times> json) list"

fun get_prop :: "json \<Rightarrow> string \<Rightarrow> json option" where
  "get_prop (JObj kvs) k = map_of kvs k"
| "get_prop _ k = None"

text \<open>\<open>!item\<close> and \<open>typeof item === 'object'\<close>.\<close>

fun falsy :: "json \<Rightarrow> bool" where
  "falsy JNull = True"
| "falsy (JBool b) = (\<not> b)"
| "falsy (JNum v) = (isNaN v \<or> v = Fin 0)"
| "falsy (JStr s) = (s = [])"
| "falsy _ = False"

fun typeof_object :: "json \<Rightarrow> bool" where
  "typeof_object JNull = True"
| "typeof_object (JArr _) = True"
| "typeof_object (JObj _) = True"
| "typeof_object _ = False"

fun isArray :: "json \<Rightarrow> bool" where
  "isArray (JArr _) = True"
| "isArray _ = False"

text \<open>
  \<open>String.prototype.trim\<close>. A \<open>char\<close> is one byte, so of the white space and line
  terminators that \<open>trim\<close> strips only those up to U+00A0 are represented.
\<close>

definition js_whitespace :: "char \<Rightarrow> bool" where
  "js_whitespace c =
     (c \<in> {CHR 0x09, CHR 0x0A, CHR 0x0B, CHR 0x0C, CHR 0x0D, CHR 0x20, CHR 0xA0})"

definition trim :: "string \<Rightarrow> string" where
  "trim s = rev (dropWhile js_whitespace (rev (dropWhile js_whitespace s)))"

definition color_name :: "color \<Rightarrow> string" where
  "color_name c = (case c of Cyan \<Rightarrow> ''cyan'' | Emerald \<Rightarrow> ''emerald'' | Amber \<Rightarrow> ''amber'')"

definition allowedColors :: "color list" where
  "allowedColors = [Cyan, Emerald, Amber]"

fun toSegmentColor :: "json option \<Rightarrow> color" where
  "toSegmentColor (Some (JStr v)) =
     (case find (\<lambda>c. color_name c = v) allowedColors of Some c \<Rightarrow> c | None \<Rightarrow> Cyan)"
| "toSegmentColor _ = Cyan"

fun safeNumber :: "json option \<Rightarrow> jsnum \<Rightarrow> jsnum" where
  "safeNumber (Some (JNum v)) fallback = (if isFinite v then clampPercent v else fallback)"
| "safeNumber _ fallback = fallback"

text \<open>\<open>typeof v === 'string' ? v : d\<close>.\<close>

fun string_or :: "json option \<Rightarrow> string \<Rightarrow> string" where
  "string_or (Some (JStr v)) d = v"
| "string_or _ d = d"

text \<open>The body of the \<open>for\<close> loop of \<open>normalizeImportedSegments\<close>: \<open>None\<close> is \<open>return null\<close>.\<close>

definition normalize_item :: "json \<Rightarrow> segment option" where
  "normalize_item item =
     (if falsy item \<or> \<not> typeof_object item then None
      else (case get_prop item ''id'' of
        Some (JStr i) \<Rightarrow>
          if length (trim i) = 0 then None
          else Some
            \<lparr>seg_id = i,
             seg_code = string_or (get_prop item ''code'') ''SEG'',
             seg_title = string_or (get_prop item ''title'') [],
             seg_details = string_or (get_prop item ''details'') [],
             seg_top = safeNumber (get_prop item ''top'') (Fin 0),
             seg_left = safeNumber (get_prop item ''left'') (Fin 0),
             seg_width = safeNumber (get_prop item ''width'') (Fin 10),
             seg_height = safeNumber (get_prop item ''height'') (Fin 8),
             seg_color = toSegmentColor (get_prop item ''color'')\<rparr>
      | _ \<Rightarrow> None))"

fun normalize_loop :: "json list \<Rightarrow> segment list \<Rightarrow> segment list option" where
  "normalize_loop [] result = Some result"
| "normalize_loop (item # rest) result =
     (case normalize_item item of
        None \<Rightarrow> None
      | Some seg \<Rightarrow> normalize_loop rest (result @ [seg]))"

fun normalizeImportedSegments :: "json \<Rightarrow> segment list option" where
  "normalizeImportedSegments (JArr raw) = normalize_loop raw []"
| "normalizeImportedSegments _ = None"

text \<open>
  \<open>JSON.parse(JSON.stringify(segments))\<close> for a value of type \<open>Segment[]\<close>: an array of
  objects with the nine properties; \<open>JSON.stringify\<close> writes a number that is not finite
  as \<open>null\<close>.
\<close>

definition json_of_number :: "jsnum \<Rightarrow> json" where
  "json_of_number v = (if isFinite v then JNum v else JNull)"

definition json_of_segment :: "segment \<Rightarrow> json" where
  "json_of_segment seg =
     JObj
      [(''id'', JStr (seg_id seg)),
       (''code'', JStr (seg_code seg)),
       (''title'', JStr (seg_title seg)),
       (''details'', JStr (seg_details seg)),
       (''top'', json_of_number (seg_top seg)),
       (''left'', json_of_number (seg_left seg)),
       (''width'', json_of_number (seg_width seg)),
       (''height'', json_of_number (seg_height seg)),
       (''color'', JStr (color_name (seg_color seg)))]"

definition parse_stringify :: "segment list \<Rightarrow> json" where
  "parse_stringify segs = JArr (map json_of_segment segs)"


section \<open>The page state and its handlers\<close>

text \<open>
  The state of the \<open>Home\<close> component, with the local state of the two children that the
  handlers below belong to: \<open>dragState\<close> and \<open>previewPoint\<close> of the canvas
  (\<open>BlueprintImageWithSegments\<close>), and the import fields of the sidebar
  (\<open>BlueprintSidebarEdit\<close>). One handler runs to its end, and the page renders again,
  before the next event is handled; so a handler reads the state its event found.
\<close>

record dragging =
  drag_id :: string
  offsetX :: jsnum
  offsetY :: jsnum

text \<open>The three messages \<open>handleApplyImport\<close> can show.\<close>

datatype import_error = PasteJsonFirst | InvalidOrEmptyList | JsonParseFailed

record page =
  segments :: "segment list"
  polylines :: "polyline list"
  hoveredSegmentId :: "string option"
  selectedSegmentId :: "string option"
  zoom :: jsnum
  isEditMode :: bool
  isDrawingPolyline :: bool
  activePolylineId :: "string option"
  pendingDeletePolylineId :: "string option"
  dragState :: "dragging option"
  previewPoint :: "point option"
  importText :: string
  importError :: "import_error option"
  importSuccess :: bool

text \<open>
  What the browser reports of an element: its bounding client rectangle. The overlay
  \<open>svg\<close> has \<open>viewBox="0 0 100 100"\<close> and \<open>preserveAspectRatio="none"\<close>, so the inverse
  of its screen transform sends a client coordinate to the percentage of the rectangle
  it falls on. \<open>None\<close> stands for an element that is not mounted (a null ref, or no
  transform).
\<close>

record rect =
  rect_left :: jsnum
  rect_top :: jsnum
  rect_width :: jsnum
  rect_height :: jsnum

definition percent_of :: "jsnum \<Rightarrow> jsnum \<Rightarrow> jsnum \<Rightarrow> jsnum" where
  "percent_of origin extent client = js_mul (js_div (js_sub client origin) extent) (Fin 100)"

definition clientToSvgPercent :: "rect option \<Rightarrow> jsnum \<Rightarrow> jsnum \<Rightarrow> point option" where
  "clientToSvgPercent svg clientX clientY =
     (case svg of
        None \<Rightarrow> None
      | Some r \<Rightarrow>
          Some \<lparr>pt_x = clampPercent (percent_of (rect_left r) (rect_width r) clientX),
                pt_y = clampPercent (percent_of (rect_top r) (rect_height r) clientY)\<rparr>)"

subsection \<open>Segments\<close>

definition handleUpdateSegment :: "string \<Rightarrow> segment_patch \<Rightarrow> page \<Rightarrow> page" where
  "handleUpdateSegment i patch s =
     s\<lparr>segments := map (\<lambda>seg. if seg_id seg = i then spread seg patch else seg) (segments s)\<rparr>"

definition handleSegmentPositionChange :: "string \<Rightarrow> jsnum \<Rightarrow> jsnum \<Rightarrow> page \<Rightarrow> page" where
  "handleSegmentPositionChange i top_v left_v s =
     (handleUpdateSegment i (no_patch\<lparr>p_top := Some top_v, p_left := Some left_v\<rparr>) s)
       \<lparr>selectedSegmentId := Some i\<rparr>"

definition handleImportSegments :: "segment list \<Rightarrow> page \<Rightarrow> page" where
  "handleImportSegments next s =
     s\<lparr>segments := next,
       selectedSegmentId := (case next of [] \<Rightarrow> None | seg # _ \<Rightarrow> Some (seg_id seg)),
       hoveredSegmentId := None\<rparr>"

text \<open>The sidebar: \<open>segments.find((s) => s.id === selectedSegmentId) || segments[0]\<close>.\<close>

definition selected :: "page \<Rightarrow> segment option" where
  "selected s =
     (case find (\<lambda>seg. Some (seg_id seg) = selectedSegmentId s) (segments s) of
        Some seg \<Rightarrow> Some seg
      | None \<Rightarrow> (case segments s of [] \<Rightarrow> None | seg # _ \<Rightarrow> Some seg))"

text \<open>
  The \<open>onChange\<close> handlers of the four number inputs, given \<open>Number(e.target.value)\<close>.
  The inputs are rendered only when there is a selected segment.
\<close>

definition onChangeTop :: "jsnum \<Rightarrow> page \<Rightarrow> page" where
  "onChangeTop v s =
     (case selected s of
        None \<Rightarrow> s
      | Some sel \<Rightarrow> handleUpdateSegment (seg_id sel) (no_patch\<lparr>p_top := Some (clampPercent v)\<rparr>) s)"

definition onChangeLeft :: "jsnum \<Rightarrow> page \<Rightarrow> page" where
  "onChangeLeft v s =
     (case selected s of
        None \<Rightarrow> s
      | Some sel \<Rightarrow> handleUpdateSegment (seg_id sel) (no_patch\<lparr>p_left := Some (clampPercent v)\<rparr>) s)"

definition onChangeWidth :: "jsnum \<Rightarrow> page \<Rightarrow> page" where
  "onChangeWidth v s =
     (case selected s of
        None \<Rightarrow> s
      | Some sel \<Rightarrow> handleUpdateSegment (seg_id sel) (no_patch\<lparr>p_width := Some (clampPercent v)\<rparr>) s)"

definition onChangeHeight :: "jsnum \<Rightarrow> page \<Rightarrow> page" where
  "onChangeHeight v s =
     (case selected s of
        None \<Rightarrow> s
      | Some sel \<Rightarrow> handleUpdateSegment (seg_id sel) (no_patch\<lparr>p_height := Some (clampPercent v)\<rparr>) s)"

subsection \<open>Dragging a segment\<close>

text \<open>
  \<open>onSegmentPositionChange\<close> is passed to the canvas in edit mode only, and the \<open>svg\<close> ref
  is the first argument. \<open>handleMouseDown\<close> gets the segment as the page rendered it.
\<close>

definition handleMouseDown :: "rect option \<Rightarrow> jsnum \<Rightarrow> jsnum \<Rightarrow> segment \<Rightarrow> page \<Rightarrow> page" where
  "handleMouseDown svg clientX clientY seg s =
     (if \<not> isEditMode s \<or> svg = None then s
      else (case clientToSvgPercent svg clientX clientY of
        None \<Rightarrow> s
      | Some pt \<Rightarrow>
          s\<lparr>dragState :=
              Some \<lparr>drag_id = seg_id seg,
                    offsetX = js_sub (pt_x pt) (seg_left seg),
                    offsetY = js_sub (pt_y pt) (seg_top seg)\<rparr>\<rparr>))"

text \<open>
  The \<open>mousemove\<close> listener the effect installs on the window while \<open>dragState\<close> is set;
  \<open>img\<close> is the bounding rectangle of the image.
\<close>

definition handleMouseMove :: "rect option \<Rightarrow> jsnum \<Rightarrow> jsnum \<Rightarrow> page \<Rightarrow> page" where
  "handleMouseMove img clientX clientY s =
     (case dragState s of
        None \<Rightarrow> s
      | Some d \<Rightarrow>
          if \<not> isEditMode s then s
          else (case img of
            None \<Rightarrow> s
          | Some r \<Rightarrow>
              let rawLeftPercent =
                    js_mul (js_div (js_sub (js_sub clientX (rect_left r)) (offsetX d)) (rect_width r))
                      (Fin 100);
                  rawTopPercent =
                    js_mul (js_div (js_sub (js_sub clientY (rect_top r)) (offsetY d)) (rect_height r))
                      (Fin 100);
                  left_v = clampPercent rawLeftPercent;
                  top_v = clampPercent rawTopPercent
              in handleSegmentPositionChange (drag_id d) top_v left_v s))"

definition stopDragging :: "page \<Rightarrow> page" where
  "stopDragging s = s\<lparr>dragState := None\<rparr>"

subsection \<open>Zoom\<close>

definition handleWheel :: "(real \<Rightarrow> bool) \<Rightarrow> jsnum \<Rightarrow> page \<Rightarrow> page" where
  "handleWheel below deltaY s =
     (let zoomStep = Fin (1 / 10);
          minZoom = Fin (1 / 2);
          maxZoom = Fin 4;
          direction = (if js_gt deltaY (Fin 0) then Fin (- 1) else Fin 1);
          nextZoom = Math_min maxZoom (Math_max minZoom (js_add (zoom s) (js_mul direction zoomStep)))
      in s\<lparr>zoom := Number_toFixed2 below nextZoom\<rparr>)"

text \<open>The container is rendered with \<open>width: zoom * 100 %\<close>.\<close>

definition container_width_percent :: "page \<Rightarrow> jsnum" where
  "container_width_percent s = js_mul (zoom s) (Fin 100)"


subsection \<open>Polylines\<close>

text \<open>
  \<open>handleStartPolyline\<close>: \<open>stamp\<close> is \<open>Date.now().toString(36)\<close>, and \<open>lineLabel n\<close> is
  the label the template literal builds for the number \<open>n\<close> (a Cyrillic word followed
  by \<open>n\<close>).
\<close>

definition handleStartPolyline :: "string \<Rightarrow> (nat \<Rightarrow> string) \<Rightarrow> page \<Rightarrow> page" where
  "handleStartPolyline stamp lineLabel s =
     (let newId = ''poly-'' @ stamp;
          newPolyline =
            \<lparr>pl_id = newId, pl_label = lineLabel (length (polylines s) + 1),
             pl_description = [], pl_color = Cyan, pl_strokeWidth = Fin (7 / 10),
             pl_dashStyle = Solid, pl_points = []\<rparr>
      in s\<lparr>polylines := polylines s @ [newPolyline],
           activePolylineId := Some newId,
           isDrawingPolyline := True\<rparr>)"

text \<open>\<open>!activePolylineId\<close> holds for \<open>null\<close> and for the empty string.\<close>

definition no_id :: "string option \<Rightarrow> bool" where
  "no_id i = (i = None \<or> i = Some [])"

definition handleAddPolylinePointFromCanvas :: "point \<Rightarrow> page \<Rightarrow> page" where
  "handleAddPolylinePointFromCanvas pt s =
     (if \<not> isDrawingPolyline s \<or> no_id (activePolylineId s) then s
      else s\<lparr>polylines :=
               map (\<lambda>poly. if Some (pl_id poly) = activePolylineId s
                            then poly\<lparr>pl_points := pl_points poly @ [pt]\<rparr> else poly)
                 (polylines s)\<rparr>)"

definition handleCanvasClick :: "rect option \<Rightarrow> jsnum \<Rightarrow> jsnum \<Rightarrow> page \<Rightarrow> page" where
  "handleCanvasClick svg clientX clientY s =
     (if \<not> isEditMode s \<or> \<not> isDrawingPolyline s then s
      else (case previewPoint s of
        Some pv \<Rightarrow> handleAddPolylinePointFromCanvas pv s
      | None \<Rightarrow>
          (case clientToSvgPercent svg clientX clientY of
             None \<Rightarrow> s
           | Some pt \<Rightarrow> handleAddPolylinePointFromCanvas \<lparr>pt_x = pt_x pt, pt_y = pt_y pt\<rparr> s)))"

definition handleMouseMoveOnCanvas :: "rect option \<Rightarrow> jsnum \<Rightarrow> jsnum \<Rightarrow> page \<Rightarrow> page" where
  "handleMouseMoveOnCanvas svg clientX clientY s =
     (if \<not> isEditMode s \<or> \<not> isDrawingPolyline s then s\<lparr>previewPoint := None\<rparr>
      else (case clientToSvgPercent svg clientX clientY of
        None \<Rightarrow> s\<lparr>previewPoint := None\<rparr>
      | Some pt \<Rightarrow> s\<lparr>previewPoint := Some \<lparr>pt_x = pt_x pt, pt_y = pt_y pt\<rparr>\<rparr>))"

definition onMouseLeaveCanvas :: "page \<Rightarrow> page" where
  "onMouseLeaveCanvas s = s\<lparr>previewPoint := None\<rparr>"

definition handleFinishPolyline :: "page \<Rightarrow> page" where
  "handleFinishPolyline s = s\<lparr>isDrawingPolyline := False\<rparr>"

definition handleClearPolylines :: "page \<Rightarrow> page" where
  "handleClearPolylines s =
     s\<lparr>isDrawingPolyline := False, activePolylineId := None, polylines := []\<rparr>"

definition handleDeletePolyline :: "string \<Rightarrow> page \<Rightarrow> page" where
  "handleDeletePolyline i s =
     s\<lparr>polylines := filter (\<lambda>p. pl_id p \<noteq> i) (polylines s),
       activePolylineId :=
         (if activePolylineId s \<noteq> Some i then activePolylineId s
          else (case filter (\<lambda>p. pl_id p \<noteq> i) (polylines s) of
                  [] \<Rightarrow> None
                | p # _ \<Rightarrow> Some (pl_id p))),
       isDrawingPolyline := (if activePolylineId s = Some i then False else isDrawingPolyline s)\<rparr>"

text \<open>The events of a drawing session on the canvas and the sidebar, and a run of them.\<close>

datatype drawing_event =
  Start string
| Move "rect option" jsnum jsnum
| Click "rect option" jsnum jsnum
| Leave
| Finish

fun drawing_step :: "(nat \<Rightarrow> string) \<Rightarrow> page \<Rightarrow> drawing_event \<Rightarrow> page" where
  "drawing_step lineLabel s (Start stamp) = handleStartPolyline stamp lineLabel s"
| "drawing_step lineLabel s (Move svg x y) = handleMouseMoveOnCanvas svg x y s"
| "drawing_step lineLabel s (Click svg x y) = handleCanvasClick svg x y s"
| "drawing_step lineLabel s Leave = onMouseLeaveCanvas s"
| "drawing_step lineLabel s Finish = handleFinishPolyline s"

definition drawing_run :: "(nat \<Rightarrow> string) \<Rightarrow> page \<Rightarrow> drawing_event list \<Rightarrow> page" where
  "drawing_run lineLabel s evs = foldl (drawing_step lineLabel) s evs"

text \<open>
  The session \<open>start\<close>, \<open>point(p1)\<close>, \<open>point(p2)\<close>, \<open>finish\<close> on the handlers of \<open>Home\<close>.
\<close>

definition captured_session :: "string \<Rightarrow> (nat \<Rightarrow> string) \<Rightarrow> point \<Rightarrow> point \<Rightarrow> page \<Rightarrow> page" where
  "captured_session stamp lineLabel p1 p2 s =
     handleFinishPolyline
       (handleAddPolylinePointFromCanvas p2
          (handleAddPolylinePointFromCanvas p1 (handleStartPolyline stamp lineLabel s)))"

subsection \<open>The wheel modal\<close>

text \<open>
  \<open>WheelDetailModal\<close> keeps a polyline collection of its own. \<open>deleteLine\<close> is its
  delete handler; \<open>syncActive\<close> is the effect that runs after a render in which \<open>open\<close>
  or \<open>polylines.length\<close> changed.
\<close>

record wheel_modal =
  w_open :: bool
  w_polylines :: "polyline list"
  w_activeId :: "string option"
  w_isDrawing :: bool
  w_previewPoint :: "point option"
  w_isEditMode :: bool

definition deleteLine :: "string \<Rightarrow> wheel_modal \<Rightarrow> wheel_modal" where
  "deleteLine i w =
     w\<lparr>w_polylines := filter (\<lambda>p. pl_id p \<noteq> i) (w_polylines w),
       w_activeId := (if w_activeId w = Some i then None else w_activeId w),
       w_isDrawing := (if w_activeId w = Some i then False else w_isDrawing w)\<rparr>"

definition syncActive :: "wheel_modal \<Rightarrow> wheel_modal" where
  "syncActive w =
     (if w_open w
      then w\<lparr>w_activeId :=
               (case w_activeId w of
                  Some a \<Rightarrow> Some a
                | None \<Rightarrow> (case w_polylines w of [] \<Rightarrow> None | p # _ \<Rightarrow> Some (pl_id p)))\<rparr>
      else w)"

text \<open>
  The modal's own click and finish handlers. Its \<open>clientToSvgPercent\<close> is the same
  mapping on the modal's overlay.
\<close>

definition handleContainerClick :: "rect option \<Rightarrow> jsnum \<Rightarrow> jsnum \<Rightarrow> wheel_modal \<Rightarrow> wheel_modal" where
  "handleContainerClick svg clientX clientY w =
     (if \<not> w_isEditMode w \<or> \<not> w_isDrawing w then w
      else (case clientToSvgPercent svg clientX clientY of
        None \<Rightarrow> w
      | Some p \<Rightarrow>
          if no_id (w_activeId w) then w
          else w\<lparr>w_polylines :=
                   map (\<lambda>pl. if Some (pl_id pl) = w_activeId w
                              then pl\<lparr>pl_points := pl_points pl @ [p]\<rparr> else pl)
                     (w_polylines w)\<rparr>))"

definition finishLine :: "wheel_modal \<Rightarrow> wheel_modal" where
  "finishLine w = w\<lparr>w_isDrawing := False, w_previewPoint := None\<rparr>"

subsection \<open>Import and start-up\<close>

text \<open>
  \<open>handleApplyImport\<close>. \<open>JSON_parse\<close> is the platform function: \<open>None\<close> when it throws.
\<close>

definition handleApplyImport :: "(string \<Rightarrow> json option) \<Rightarrow> page \<Rightarrow> page" where
  "handleApplyImport JSON_parse s0 =
     (let s = s0\<lparr>importError := None, importSuccess := False\<rparr>
      in if trim (importText s) = [] then s\<lparr>importError := Some PasteJsonFirst\<rparr>
         else (case JSON_parse (importText s) of
           None \<Rightarrow> s\<lparr>importError := Some JsonParseFailed\<rparr>
         | Some parsed \<Rightarrow>
             (case normalizeImportedSegments parsed of
                None \<Rightarrow> s\<lparr>importError := Some InvalidOrEmptyList\<rparr>
              | Some normalized \<Rightarrow>
                  if length normalized = 0 then s\<lparr>importError := Some InvalidOrEmptyList\<rparr>
                  else (handleImportSegments normalized s)\<lparr>importSuccess := True\<rparr>)))"

text \<open>
  The initializer of the \<open>segments\<close> state. \<open>stored\<close> is what \<open>localStorage.getItem\<close>
  returned (\<open>None\<close> for \<open>null\<close>). The parsed value is returned as it is: the
  \<open>as Segment[]\<close> of the source is a type assertion and checks nothing at run time, so
  the result is a JSON value and not a list of segments.
\<close>

datatype 'a initial = FromSnapshot 'a | Default

definition segments_initializer :: "(string \<Rightarrow> json option) \<Rightarrow> string option \<Rightarrow> json initial" where
  "segments_initializer JSON_parse stored =
     (case stored of
        None \<Rightarrow> Default
      | Some txt \<Rightarrow>
          if txt = [] then Default
          else (case JSON_parse txt of
            None \<Rightarrow> Default
          | Some parsed \<Rightarrow> if isArray parsed then FromSnapshot parsed else Default))"


subsection \<open>Runs of events\<close>

text \<open>
  The events through which the page changes the geometry of a segment: the four number
  inputs of the sidebar, selecting a segment, and a drag on the canvas (\<open>MouseDown\<close> on
  the n-th rendered segment, \<open>MouseMove\<close> and \<open>MouseUp\<close> on the window).
\<close>

datatype geometry_event =
  EditTop jsnum
| EditLeft jsnum
| EditWidth jsnum
| EditHeight jsnum
| SelectSegment string
| MouseDown "rect option" jsnum jsnum nat
| MouseMove "rect option" jsnum jsnum
| MouseUp

fun geometry_step :: "page \<Rightarrow> geometry_event \<Rightarrow> page" where
  "geometry_step s (EditTop v) = onChangeTop v s"
| "geometry_step s (EditLeft v) = onChangeLeft v s"
| "geometry_step s (EditWidth v) = onChangeWidth v s"
| "geometry_step s (EditHeight v) = onChangeHeight v s"
| "geometry_step s (SelectSegment i) = s\<lparr>selectedSegmentId := Some i\<rparr>"
| "geometry_step s (MouseDown svg x y n) =
     (if n < length (segments s) then handleMouseDown svg x y (segments s ! n) s else s)"
| "geometry_step s (MouseMove img x y) = handleMouseMove img x y s"
| "geometry_step s MouseUp = stopDragging s"

definition geometry_run :: "page \<Rightarrow> geometry_event list \<Rightarrow> page" where
  "geometry_run s evs = foldl geometry_step s evs"

text \<open>A drag session: one grab, any number of moves, the release.\<close>

definition drag_session ::
  "rect option \<Rightarrow> jsnum \<times> jsnum \<Rightarrow> nat \<Rightarrow> (rect option \<times> jsnum \<times> jsnum) list \<Rightarrow> page \<Rightarrow> page" where
  "drag_session svg grab n moves s =
     geometry_run s
       (MouseDown svg (fst grab) (snd grab) n # map (\<lambda>(img, x, y). MouseMove img x y) moves @ [MouseUp])"

text \<open>A run of wheel events.\<close>

definition wheel_run :: "(real \<Rightarrow> bool) \<Rightarrow> jsnum list \<Rightarrow> page \<Rightarrow> page" where
  "wheel_run below deltas s = fold (handleWheel below) deltas s"

subsection \<open>Words of the specification\<close>

text \<open>
  "An object with a non-empty string id", as the specification words the validator's
  minimal requirement on an element.
\<close>

definition object_with_nonempty_string_id :: "json \<Rightarrow> bool" where
  "object_with_nonempty_string_id item =
     (case item of
        JObj kvs \<Rightarrow> (case map_of kvs ''id'' of Some (JStr i) \<Rightarrow> i \<noteq> [] | _ \<Rightarrow> False)
      | _ \<Rightarrow> False)"

subsection \<open>Example values\<close>

definition example_segment :: segment where
  "example_segment =
     \<lparr>seg_id = ''tp2'', seg_code = ''TP-2'', seg_title = [], seg_details = [],
      seg_top = Fin 10, seg_left = Fin 10, seg_width = Fin 10, seg_height = Fin 7,
      seg_color = Cyan\<rparr>"

definition example_polyline :: "string \<Rightarrow> polyline" where
  "example_polyline i =
     \<lparr>pl_id = i, pl_label = i, pl_description = [], pl_color = Cyan,
      pl_strokeWidth = Fin (7 / 10), pl_dashStyle = Solid, pl_points = []\<rparr>"

definition example_page :: page where
  "example_page =
     \<lparr>segments = [example_segment], polylines = [], hoveredSegmentId = None,
      selectedSegmentId = Some ''tp2'', zoom = Fin 1, isEditMode = True,
      isDrawingPolyline = False, activePolylineId = None, pendingDeletePolylineId = None,
      dragState = None, previewPoint = None, importText = [], importError = None,
      importSuccess = False\<rparr>"

definition example_rect :: rect where
  "example_rect = \<lparr>rect_left = Fin 0, rect_top = Fin 0, rect_width = Fin 1000, rect_height = Fin 500\<rparr>"

definition example_modal :: wheel_modal where
  "example_modal =
     \<lparr>w_open = True, w_polylines = [example_polyline ''a'', example_polyline ''b''],
      w_activeId = Some ''a'', w_isDrawing = True, w_previewPoint = None, w_isEditMode = True\<rparr>"


section \<open>Zoom\<close>













lemma wheel_run_annotations:
  "segments (wheel_run below deltas s) = segments s \<and>
   polylines (wheel_run below deltas s) = polylines s"
proof (induction deltas arbitrary: s)
  case Nil
  show ?case by (simp add: wheel_run_def)
next
  case (Cons d ds)
  have "wheel_run below (d # ds) s = wheel_run below ds (handleWheel below d s)"
    by (simp add: wheel_run_def)
  moreover have "segments (handleWheel below d s) = segments s"
    "polylines (handleWheel below d s) = polylines s"
    by (simp_all add: handleWheel_def Let_def)
  ultimately show ?case using Cons.IH[of "handleWheel below d s"] by simp
qed

text \<open>
  Claim C9. A wheel event changes the \<open>zoom\<close> field and nothing else: the segment and
  polyline collections are the same before and after one wheel event and after any run
  of them; the width of the container is computed from \<open>zoom\<close> alone.
\<close>

theorem zoom_leaves_annotations:
  "handleWheel below deltaY s = s\<lparr>zoom := zoom (handleWheel below deltaY s)\<rparr> \<and>
   segments (handleWheel below deltaY s) = segments s \<and>
   polylines (handleWheel below deltaY s) = polylines s \<and>
   segments (wheel_run below deltas s) = segments s \<and>
   polylines (wheel_run below deltas s) = polylines s \<and>
   container_width_percent (handleWheel below deltaY s)
     = js_mul (zoom (handleWheel below deltaY s)) (Fin 100)"
  using wheel_run_annotations[of below deltas s]
  by (simp add: handleWheel_def Let_def container_width_percent_def)

section \<open>The import validator\<close>

lemma trim_Nil: "trim [] = []"
  by (simp add: trim_def)

lemma normalize_item_Some_object:
  assumes "normalize_item item = Some seg"
  shows "object_with_nonempty_string_id item"
proof (cases item)
  case (JObj kvs)
  with assms show ?thesis
    by (auto simp: normalize_item_def object_with_nonempty_string_id_def trim_Nil
        split: option.splits json.splits if_splits)
qed (use assms in \<open>simp_all add: normalize_item_def\<close>)

lemma normalize_loop_Some:
  "normalize_loop items acc = Some segs \<Longrightarrow>
   \<exists>new. segs = acc @ new \<and> map Some new = map normalize_item items"
proof (induction items arbitrary: acc)
  case Nil
  then show ?case by simp
next
  case (Cons item rest)
  then obtain seg where seg: "normalize_item item = Some seg"
    and rest: "normalize_loop rest (acc @ [seg]) = Some segs"
    by (auto split: option.splits)
  from Cons.IH[OF rest] obtain new where "segs = (acc @ [seg]) @ new"
    and "map Some new = map normalize_item rest" by blast
  then have "segs = acc @ (seg # new) \<and> map Some (seg # new) = map normalize_item (item # rest)"
    using seg by simp
  then show ?case by blast
qed

lemma normalize_loop_None:
  "\<exists>item\<in>set items. normalize_item item = None \<Longrightarrow> normalize_loop items acc = None"
  by (induction items arbitrary: acc) (auto split: option.splits)

text \<open>
  Claim C3. The validator returns \<open>null\<close> for a value that is not an array, and for an
  array of which any one element is not an object with a non-empty string id, whatever
  the other elements are. When it returns a list, the input is an array, every element
  of it is such an object, and the list holds the normalised form of every element in
  order: never a part of the valid ones.
\<close>

theorem import_all_or_nothing:
  "(\<not> isArray raw \<longrightarrow> normalizeImportedSegments raw = None) \<and>
   ((\<exists>item\<in>set items. \<not> object_with_nonempty_string_id item) \<longrightarrow>
      normalizeImportedSegments (JArr items) = None) \<and>
   (normalizeImportedSegments raw = Some segs \<longrightarrow>
      (\<exists>elems. raw = JArr elems \<and> map Some segs = map normalize_item elems \<and>
         (\<forall>item\<in>set elems. object_with_nonempty_string_id item)))"
proof (intro conjI impI)
  assume "\<not> isArray raw"
  then show "normalizeImportedSegments raw = None" by (cases raw) simp_all
next
  assume "\<exists>item\<in>set items. \<not> object_with_nonempty_string_id item"
  then obtain item where "item \<in> set items" and "\<not> object_with_nonempty_string_id item"
    by blast
  then have "\<exists>item\<in>set items. normalize_item item = None"
    using normalize_item_Some_object by (metis not_Some_eq)
  then show "normalizeImportedSegments (JArr items) = None"
    by (simp add: normalize_loop_None)
next
  assume ok: "normalizeImportedSegments raw = Some segs"
  then obtain elems where raw: "raw = JArr elems" by (cases raw) simp_all
  with ok have "normalize_loop elems [] = Some segs" by simp
  from normalize_loop_Some[OF this] have m: "map Some segs = map normalize_item elems" by simp
  have "\<forall>item\<in>set elems. object_with_nonempty_string_id item"
  proof
    fix item assume "item \<in> set elems"
    then have "normalize_item item \<in> set (map Some segs)" using m by simp
    then obtain seg where "normalize_item item = Some seg" by auto
    then show "object_with_nonempty_string_id item" by (rule normalize_item_Some_object)
  qed
  with raw m show "\<exists>elems. raw = JArr elems \<and> map Some segs = map normalize_item elems \<and>
         (\<forall>item\<in>set elems. object_with_nonempty_string_id item)" by blast
qed

theorem import_all_or_nothing_witness:
  "\<not> isArray (JObj [(''id'', JStr ''a'')]) \<and>
   normalizeImportedSegments (JObj [(''id'', JStr ''a'')]) = None \<and>
   \<not> object_with_nonempty_string_id (JObj [(''code'', JStr ''OTK'')]) \<and>
   normalize_item (json_of_segment example_segment) = Some example_segment \<and>
   normalizeImportedSegments
     (JArr [json_of_segment example_segment, JObj [(''code'', JStr ''OTK'')]]) = None \<and>
   normalizeImportedSegments (JArr [json_of_segment example_segment]) = Some [example_segment]"
  using import_all_or_nothing[where raw = "JObj [(''id'', JStr ''a'')]"
      and items = "[json_of_segment example_segment, JObj [(''code'', JStr ''OTK'')]]" and segs = "[]"]
  by (simp add: object_with_nonempty_string_id_def normalize_item_def json_of_segment_def
      example_segment_def json_of_number_def trim_def js_whitespace_def clampPercent_def
      js_gt_def color_name_def allowedColors_def)


section \<open>The round trip through JSON\<close>

lemma clampPercent_in_percent: "in_percent v \<Longrightarrow> clampPercent v = v"
  by (cases v) (auto simp: clampPercent_def js_gt_def)

lemma in_percent_isFinite: "in_percent v \<Longrightarrow> isFinite v"
  by (cases v) simp_all

lemma safeNumber_in_percent: "in_percent v \<Longrightarrow> safeNumber (Some (json_of_number v)) d = v"
  by (simp add: json_of_number_def in_percent_isFinite clampPercent_in_percent)

lemma toSegmentColor_color_name: "toSegmentColor (Some (JStr (color_name c))) = c"
  by (cases c) (simp_all add: color_name_def allowedColors_def)

lemma normalize_item_json_of_segment:
  assumes "geometry_ok seg" and "trim (seg_id seg) \<noteq> []"
  shows "normalize_item (json_of_segment seg) = Some seg"
proof -
  have g: "in_percent (seg_top seg)" "in_percent (seg_left seg)"
    "in_percent (seg_width seg)" "in_percent (seg_height seg)"
    using assms(1) by (simp_all add: geometry_ok_def)
  show ?thesis
    using assms(2) g
    by (simp add: normalize_item_def json_of_segment_def safeNumber_in_percent
        toSegmentColor_color_name del: toSegmentColor.simps safeNumber.simps)
qed

lemma normalize_item_blank_id:
  "trim (seg_id seg) = [] \<Longrightarrow> normalize_item (json_of_segment seg) = None"
  by (simp add: normalize_item_def json_of_segment_def)

lemma normalize_loop_roundtrip:
  "\<forall>seg\<in>set segs. geometry_ok seg \<and> trim (seg_id seg) \<noteq> [] \<Longrightarrow>
   normalize_loop (map json_of_segment segs) acc = Some (acc @ segs)"
  by (induction segs arbitrary: acc) (simp_all add: normalize_item_json_of_segment)

text \<open>
  Claim C8, as stated: a segment whose id is one space satisfies every constraint of the
  data model (a string id, unique in the array, geometry within 0 and 100, a colour of
  the enumeration), and validating its serialised form gives \<open>null\<close>, not the array.
\<close>

theorem roundtrip_blank_id_counterexample:
  "geometry_ok (example_segment\<lparr>seg_id := '' ''\<rparr>) \<and>
   distinct (map seg_id [example_segment\<lparr>seg_id := '' ''\<rparr>]) \<and>
   seg_id (example_segment\<lparr>seg_id := '' ''\<rparr>) \<noteq> [] \<and>
   normalizeImportedSegments (parse_stringify [example_segment\<lparr>seg_id := '' ''\<rparr>]) = None"
  by (simp add: geometry_ok_def example_segment_def parse_stringify_def json_of_segment_def
      normalize_item_def trim_def js_whitespace_def)

text \<open>
  Claim C8, amended. For every array of segments whose geometry fields are within 0 and
  100 and whose ids are not blank (each has a character that \<open>trim\<close> keeps), validating
  the serialised and re-parsed array gives the array back. An array holding a segment
  with a blank id is rejected.
\<close>

theorem roundtrip_nonblank_ids:
  "((\<forall>seg\<in>set segs. geometry_ok seg \<and> trim (seg_id seg) \<noteq> []) \<longrightarrow>
      normalizeImportedSegments (parse_stringify segs) = Some segs) \<and>
   ((\<exists>seg\<in>set segs. trim (seg_id seg) = []) \<longrightarrow>
      normalizeImportedSegments (parse_stringify segs) = None)"
proof (intro conjI impI)
  assume "\<forall>seg\<in>set segs. geometry_ok seg \<and> trim (seg_id seg) \<noteq> []"
  then show "normalizeImportedSegments (parse_stringify segs) = Some segs"
    using normalize_loop_roundtrip[of segs "[]"] by (simp add: parse_stringify_def)
next
  assume "\<exists>seg\<in>set segs. trim (seg_id seg) = []"
  then have "\<exists>item\<in>set (map json_of_segment segs). normalize_item item = None"
    using normalize_item_blank_id by auto
  then show "normalizeImportedSegments (parse_stringify segs) = None"
    by (simp add: parse_stringify_def normalize_loop_None)
qed

theorem roundtrip_nonblank_ids_witness:
  "geometry_ok example_segment \<and> trim (seg_id example_segment) = ''tp2'' \<and>
   normalizeImportedSegments (parse_stringify [example_segment, example_segment\<lparr>seg_id := ''otk''\<rparr>])
     = Some [example_segment, example_segment\<lparr>seg_id := ''otk''\<rparr>] \<and>
   normalizeImportedSegments (parse_stringify [example_segment, example_segment\<lparr>seg_id := []\<rparr>])
     = None"
  using roundtrip_nonblank_ids[of "[example_segment, example_segment\<lparr>seg_id := ''otk''\<rparr>]"]
    roundtrip_nonblank_ids[of "[example_segment, example_segment\<lparr>seg_id := []\<rparr>]"]
  by (simp add: geometry_ok_def example_segment_def trim_def js_whitespace_def)


section \<open>Applying an import\<close>

lemma trim_brackets: "trim ''[]'' = ''[]''"
  by (simp add: trim_def js_whitespace_def)

lemma apply_import_success:
  assumes "importSuccess (handleApplyImport JSON_parse s)"
  shows "\<exists>parsed normalized. JSON_parse (importText s) = Some parsed \<and>
           normalizeImportedSegments parsed = Some normalized \<and> normalized \<noteq> [] \<and>
           segments (handleApplyImport JSON_parse s) = normalized"
  using assms
  by (auto simp: handleApplyImport_def Let_def handleImportSegments_def
      split: if_splits option.splits)

text \<open>
  Claim C10. Applying an import whose text is \<open>[]\<close> shows the message for an invalid or
  empty list and changes nothing else on the page, the segment collection included;
  whenever the parsed text is the empty array, the segments are unchanged, a message is
  set and no success is reported. So when an import reports success, the collection it
  installed is the validator's result and is not empty.
\<close>

theorem empty_import_rejected:
  "(importText s = ''[]'' \<and> JSON_parse ''[]'' = Some (JArr []) \<longrightarrow>
      handleApplyImport JSON_parse s =
        s\<lparr>importError := Some InvalidOrEmptyList, importSuccess := False\<rparr>) \<and>
   (JSON_parse (importText s) = Some (JArr []) \<longrightarrow>
      segments (handleApplyImport JSON_parse s) = segments s \<and>
      importError (handleApplyImport JSON_parse s) \<noteq> None \<and>
      \<not> importSuccess (handleApplyImport JSON_parse s)) \<and>
   (importSuccess (handleApplyImport JSON_parse s) \<longrightarrow>
      segments (handleApplyImport JSON_parse s) \<noteq> [] \<and>
      (\<exists>parsed. JSON_parse (importText s) = Some parsed \<and>
         normalizeImportedSegments parsed = Some (segments (handleApplyImport JSON_parse s))))"
proof (intro conjI impI)
  assume "importText s = ''[]'' \<and> JSON_parse ''[]'' = Some (JArr [])"
  then show "handleApplyImport JSON_parse s =
        s\<lparr>importError := Some InvalidOrEmptyList, importSuccess := False\<rparr>"
    by (simp add: handleApplyImport_def Let_def trim_brackets)
next
  assume e: "JSON_parse (importText s) = Some (JArr [])"
  then show "segments (handleApplyImport JSON_parse s) = segments s"
    by (simp add: handleApplyImport_def Let_def)
  from e show "importError (handleApplyImport JSON_parse s) \<noteq> None"
    by (simp add: handleApplyImport_def Let_def)
  from e show "\<not> importSuccess (handleApplyImport JSON_parse s)"
    by (simp add: handleApplyImport_def Let_def)
next
  assume ok: "importSuccess (handleApplyImport JSON_parse s)"
  from apply_import_success[OF ok]
  show "segments (handleApplyImport JSON_parse s) \<noteq> []" by auto
  from apply_import_success[OF ok]
  show "\<exists>parsed. JSON_parse (importText s) = Some parsed \<and>
         normalizeImportedSegments parsed = Some (segments (handleApplyImport JSON_parse s))"
    by auto
qed

theorem empty_import_rejected_witness:
  "handleApplyImport (\<lambda>t. if t = ''[]'' then Some (JArr []) else None)
     (example_page\<lparr>importText := ''[]''\<rparr>) =
     example_page\<lparr>importText := ''[]'', importError := Some InvalidOrEmptyList\<rparr> \<and>
   importSuccess (handleApplyImport (\<lambda>t. Some (JArr [json_of_segment example_segment]))
     (example_page\<lparr>segments := [], importText := ''x''\<rparr>)) \<and>
   segments (handleApplyImport (\<lambda>t. Some (JArr [json_of_segment example_segment]))
     (example_page\<lparr>segments := [], importText := ''x''\<rparr>)) = [example_segment]"
  using empty_import_rejected[where s = "example_page\<lparr>importText := ''[]''\<rparr>"
      and JSON_parse = "\<lambda>t. if t = ''[]'' then Some (JArr []) else None"]
    empty_import_rejected[where s = "example_page\<lparr>segments := [], importText := ''x''\<rparr>"
      and JSON_parse = "\<lambda>t. Some (JArr [json_of_segment example_segment])"]
  by (simp add: example_page_def handleApplyImport_def Let_def trim_def js_whitespace_def
      handleImportSegments_def normalize_item_json_of_segment geometry_ok_def example_segment_def)


section \<open>Segment geometry\<close>

lemma clampPercent_range: "in_percent (clampPercent v)"
  by (cases v) (auto simp: clampPercent_def js_gt_def)

lemma spread_geometry_ok:
  "geometry_ok seg \<Longrightarrow> patch_in_range patch \<Longrightarrow> geometry_ok (spread seg patch)"
  by (auto simp: geometry_ok_def patch_in_range_def spread_def or_else_def split: option.splits)

lemma handleUpdateSegment_geometry_ok:
  assumes "\<forall>seg\<in>set (segments s). geometry_ok seg" and "patch_in_range patch"
  shows "\<forall>seg\<in>set (segments (handleUpdateSegment i patch s)). geometry_ok seg"
  using assms by (auto simp: handleUpdateSegment_def spread_geometry_ok)

lemma geometry_step_geometry_ok:
  assumes inv: "\<forall>seg\<in>set (segments s). geometry_ok seg"
  shows "\<forall>seg\<in>set (segments (geometry_step s ev)). geometry_ok seg"
proof (cases ev)
  case (EditTop v)
  have "patch_in_range (no_patch\<lparr>p_top := Some (clampPercent v)\<rparr>)"
    by (simp add: patch_in_range_def no_patch_def or_else_def clampPercent_range)
  with inv EditTop show ?thesis
    by (simp add: onChangeTop_def handleUpdateSegment_geometry_ok split: option.splits)
next
  case (EditLeft v)
  have "patch_in_range (no_patch\<lparr>p_left := Some (clampPercent v)\<rparr>)"
    by (simp add: patch_in_range_def no_patch_def or_else_def clampPercent_range)
  with inv EditLeft show ?thesis
    by (simp add: onChangeLeft_def handleUpdateSegment_geometry_ok split: option.splits)
next
  case (EditWidth v)
  have "patch_in_range (no_patch\<lparr>p_width := Some (clampPercent v)\<rparr>)"
    by (simp add: patch_in_range_def no_patch_def or_else_def clampPercent_range)
  with inv EditWidth show ?thesis
    by (simp add: onChangeWidth_def handleUpdateSegment_geometry_ok split: option.splits)
next
  case (EditHeight v)
  have "patch_in_range (no_patch\<lparr>p_height := Some (clampPercent v)\<rparr>)"
    by (simp add: patch_in_range_def no_patch_def or_else_def clampPercent_range)
  with inv EditHeight show ?thesis
    by (simp add: onChangeHeight_def handleUpdateSegment_geometry_ok split: option.splits)
next
  case (SelectSegment i)
  with inv show ?thesis by simp
next
  case (MouseDown svg x y n)
  with inv show ?thesis by (simp add: handleMouseDown_def split: option.splits)
next
  case (MouseMove img x y)
  have p: "\<And>a b. patch_in_range (no_patch\<lparr>p_top := Some (clampPercent a), p_left := Some (clampPercent b)\<rparr>)"
    by (simp add: patch_in_range_def no_patch_def or_else_def clampPercent_range)
  have "\<And>i a b. \<forall>seg\<in>set (segments (handleSegmentPositionChange i (clampPercent a) (clampPercent b) s)).
           geometry_ok seg"
    using handleUpdateSegment_geometry_ok[OF inv p] by (simp add: handleSegmentPositionChange_def)
  with inv MouseMove show ?thesis
    by (simp add: handleMouseMove_def Let_def split: option.splits)
next
  case MouseUp
  with inv show ?thesis by (simp add: stopDragging_def)
qed

lemma geometry_run_geometry_ok:
  "\<forall>seg\<in>set (segments s). geometry_ok seg \<Longrightarrow>
   \<forall>seg\<in>set (segments (geometry_run s evs)). geometry_ok seg"
  unfolding geometry_run_def
proof (induction evs arbitrary: s)
  case Nil
  then show ?case by simp
next
  case (Cons ev evs)
  from Cons.IH[OF geometry_step_geometry_ok[OF Cons.prems, of ev]] show ?case by simp
qed

lemma selected_id:
  "selected s = Some sel \<Longrightarrow> sel \<in> set (segments s)"
  by (auto simp: selected_def find_Some_iff split: option.splits list.splits)

lemma updated_field:
  assumes "seg \<in> set (segments (handleUpdateSegment i patch s))" and "seg_id seg = i"
  shows "\<exists>old\<in>set (segments s). seg = spread old patch"
proof -
  from assms(1) obtain old where old: "old \<in> set (segments s)"
    and seg: "seg = (if seg_id old = i then spread old patch else old)"
    by (auto simp: handleUpdateSegment_def)
  show ?thesis
  proof (cases "seg_id old = i")
    case True
    with old seg show ?thesis by auto
  next
    case False
    with seg assms(2) show ?thesis by simp
  qed
qed

lemma spread_top: "seg_top (spread old (no_patch\<lparr>p_top := Some v\<rparr>)) = v"
  by (simp add: spread_def or_else_def)

lemma spread_left: "seg_left (spread old (no_patch\<lparr>p_left := Some v\<rparr>)) = v"
  by (simp add: spread_def or_else_def)

lemma spread_width: "seg_width (spread old (no_patch\<lparr>p_width := Some v\<rparr>)) = v"
  by (simp add: spread_def or_else_def)

lemma spread_height: "seg_height (spread old (no_patch\<lparr>p_height := Some v\<rparr>)) = v"
  by (simp add: spread_def or_else_def)

lemma clampPercent_NaN: "clampPercent NaN = Fin 0"
  by (simp add: clampPercent_def)

text \<open>
  Claim C1, as stated: \<open>update(id, patch)\<close> is \<open>handleUpdateSegment\<close>, which stores the
  values of the patch as they are. A patch with \<open>top\<close> 150 stores 150, which is outside
  0 to 100, and a patch with \<open>width\<close> \<open>NaN\<close> stores \<open>NaN\<close>, not 0.
\<close>

theorem update_stores_patch_counterexample:
  "map seg_top
     (segments (handleUpdateSegment ''tp2'' (no_patch\<lparr>p_top := Some (Fin 150)\<rparr>) example_page))
     = [Fin 150] \<and>
   \<not> in_percent (Fin 150) \<and>
   map seg_width
     (segments (handleUpdateSegment ''tp2'' (no_patch\<lparr>p_width := Some NaN\<rparr>) example_page))
     = [NaN]"
  by (simp add: handleUpdateSegment_def example_page_def example_segment_def spread_def
      no_patch_def or_else_def)

text \<open>
  Claim C1, amended. The clamp is applied by the callers of \<open>update\<close>: the four number
  inputs of the sidebar and the drag listener pass \<open>clampPercent\<close> of their value. For
  every sequence of such edits (with selections, grabs and releases in between) on a
  collection whose geometry fields are within 0 and 100, the fields of every segment
  stay within 0 and 100; and \<open>NaN\<close> entered in one of the inputs is stored as 0 in that
  field of the selected segment.
\<close>

theorem callers_keep_geometry_in_percent:
  "((\<forall>seg\<in>set (segments s). geometry_ok seg) \<longrightarrow>
      (\<forall>seg\<in>set (segments (geometry_run s evs)). geometry_ok seg)) \<and>
   (selected s = Some sel \<longrightarrow>
      sel \<in> set (segments s) \<and>
      (\<forall>seg\<in>set (segments (onChangeTop NaN s)). seg_id seg = seg_id sel \<longrightarrow> seg_top seg = Fin 0) \<and>
      (\<forall>seg\<in>set (segments (onChangeLeft NaN s)). seg_id seg = seg_id sel \<longrightarrow> seg_left seg = Fin 0) \<and>
      (\<forall>seg\<in>set (segments (onChangeWidth NaN s)). seg_id seg = seg_id sel \<longrightarrow> seg_width seg = Fin 0) \<and>
      (\<forall>seg\<in>set (segments (onChangeHeight NaN s)). seg_id seg = seg_id sel \<longrightarrow> seg_height seg = Fin 0))"
proof (intro conjI impI)
  assume "\<forall>seg\<in>set (segments s). geometry_ok seg"
  then show "\<forall>seg\<in>set (segments (geometry_run s evs)). geometry_ok seg"
    by (rule geometry_run_geometry_ok)
next
  assume "selected s = Some sel"
  then show "sel \<in> set (segments s)" by (rule selected_id)
next
  assume sel: "selected s = Some sel"
  show "\<forall>seg\<in>set (segments (onChangeTop NaN s)). seg_id seg = seg_id sel \<longrightarrow> seg_top seg = Fin 0"
    using sel updated_field[where i = "seg_id sel" and s = s]
    by (fastforce simp: onChangeTop_def clampPercent_NaN spread_top)
next
  assume sel: "selected s = Some sel"
  show "\<forall>seg\<in>set (segments (onChangeLeft NaN s)). seg_id seg = seg_id sel \<longrightarrow> seg_left seg = Fin 0"
    using sel updated_field[where i = "seg_id sel" and s = s]
    by (fastforce simp: onChangeLeft_def clampPercent_NaN spread_left)
next
  assume sel: "selected s = Some sel"
  show "\<forall>seg\<in>set (segments (onChangeWidth NaN s)). seg_id seg = seg_id sel \<longrightarrow> seg_width seg = Fin 0"
    using sel updated_field[where i = "seg_id sel" and s = s]
    by (fastforce simp: onChangeWidth_def clampPercent_NaN spread_width)
next
  assume sel: "selected s = Some sel"
  show "\<forall>seg\<in>set (segments (onChangeHeight NaN s)). seg_id seg = seg_id sel \<longrightarrow> seg_height seg = Fin 0"
    using sel updated_field[where i = "seg_id sel" and s = s]
    by (fastforce simp: onChangeHeight_def clampPercent_NaN spread_height)
qed

theorem callers_keep_geometry_in_percent_witness:
  "geometry_ok example_segment \<and> selected example_page = Some example_segment \<and>
   map seg_top (segments (onChangeTop NaN example_page)) = [Fin 0] \<and>
   map seg_width (segments (geometry_run example_page
      [EditWidth (Fin 150), EditTop (Fin (- 3)), MouseDown (Some example_rect) (Fin 200) (Fin 100) 0,
       MouseMove (Some example_rect) (Fin 5000) (Fin 250), MouseUp])) = [Fin 100] \<and>
   geometry_ok (hd (segments (geometry_run example_page
      [EditWidth (Fin 150), EditTop (Fin (- 3)), MouseDown (Some example_rect) (Fin 200) (Fin 100) 0,
       MouseMove (Some example_rect) (Fin 5000) (Fin 250), MouseUp])))"
  using callers_keep_geometry_in_percent[where s = example_page and sel = example_segment
      and evs = "[EditWidth (Fin 150), EditTop (Fin (- 3)),
        MouseDown (Some example_rect) (Fin 200) (Fin 100) 0,
        MouseMove (Some example_rect) (Fin 5000) (Fin 250), MouseUp]"]
  by (simp add: geometry_ok_def example_page_def example_segment_def selected_def
      geometry_run_def onChangeTop_def onChangeWidth_def handleUpdateSegment_def spread_def
      no_patch_def or_else_def clampPercent_def js_gt_def handleMouseDown_def
      clientToSvgPercent_def percent_of_def js_sub_def example_rect_def handleMouseMove_def
      Let_def handleSegmentPositionChange_def stopDragging_def)


section \<open>The drag offset and the initial segments\<close>

text \<open>
  Claim C2. The image is 1000 by 500 pixels at the origin and the segment is at
  \<open>left = 10\<close>, \<open>top = 10\<close>. The pointer grabs it at client (200, 100), which is (20, 20)
  in percent, so the grab offset is (10, 10) percent. After a move to client (500, 250),
  which is (50, 50) in percent, the claim gives \<open>left = 40\<close>, \<open>top = 40\<close>. The listener
  subtracts the offset, a percentage, from the pointer's distance in pixels before it
  scales: it stores \<open>left = 49\<close>, \<open>top = 48\<close>. A move that stays at the grab position
  already puts the segment at (19, 18).
\<close>

theorem drag_offset_in_pixels:
  "dragState (handleMouseDown (Some example_rect) (Fin 200) (Fin 100) example_segment example_page)
     = Some \<lparr>drag_id = ''tp2'', offsetX = Fin 10, offsetY = Fin 10\<rparr> \<and>
   clientToSvgPercent (Some example_rect) (Fin 500) (Fin 250) = Some \<lparr>pt_x = Fin 50, pt_y = Fin 50\<rparr> \<and>
   clampPercent (js_sub (Fin 50) (Fin 10)) = Fin 40 \<and>
   map (\<lambda>seg. (seg_left seg, seg_top seg))
     (segments (drag_session (Some example_rect) (Fin 200, Fin 100) 0
        [(Some example_rect, Fin 500, Fin 250)] example_page)) = [(Fin 49, Fin 48)] \<and>
   map (\<lambda>seg. (seg_left seg, seg_top seg))
     (segments (drag_session (Some example_rect) (Fin 200, Fin 100) 0
        [(Some example_rect, Fin 200, Fin 100)] example_page)) = [(Fin 19, Fin 18)]"
  by (simp add: drag_session_def geometry_run_def example_page_def example_segment_def
      example_rect_def handleMouseDown_def clientToSvgPercent_def percent_of_def js_sub_def
      clampPercent_def js_gt_def handleMouseMove_def Let_def handleSegmentPositionChange_def
      handleUpdateSegment_def spread_def no_patch_def or_else_def stopDragging_def)

theorem drag_offset_in_pixels_witness:
  "isEditMode example_page \<and> Some example_rect \<noteq> None \<and>
   map (\<lambda>seg. (seg_left seg, seg_top seg))
     (segments (drag_session (Some example_rect) (Fin 200, Fin 100) 0
        [(Some example_rect, Fin 500, Fin 250)] example_page)) = [(Fin 49, Fin 48)]"
  using drag_offset_in_pixels by (simp add: example_page_def)

text \<open>
  Claim C4. Whatever array \<open>JSON.parse\<close> returns for a stored text that is not empty
  becomes the initial \<open>segments\<close> as it is. The array \<open>[1]\<close> is an instance: the import
  validator rejects it, and the initializer returns it. The default dataset is the
  result only when the item is absent or empty, when \<open>JSON.parse\<close> throws, and when the
  parsed value is not an array.
\<close>

theorem segments_initializer_unvalidated:
  "segments_initializer (\<lambda>t. Some (JArr items)) (Some (c # cs)) = FromSnapshot (JArr items) \<and>
   segments_initializer (\<lambda>t. if t = ''[1]'' then Some (JArr [JNum (Fin 1)]) else None) (Some ''[1]'')
     = FromSnapshot (JArr [JNum (Fin 1)]) \<and>
   normalizeImportedSegments (JArr [JNum (Fin 1)]) = None \<and>
   segments_initializer JSON_parse None = Default \<and>
   segments_initializer JSON_parse (Some []) = Default \<and>
   segments_initializer (\<lambda>t. None) stored = Default \<and>
   segments_initializer (\<lambda>t. Some (JObj kvs)) stored = Default"
  by (simp add: segments_initializer_def normalize_item_def split: option.splits)


section \<open>Deleting a polyline\<close>

lemma delete_home:
  "polylines (handleDeletePolyline i s) = filter (\<lambda>p. pl_id p \<noteq> i) (polylines s) \<and>
   activePolylineId (handleDeletePolyline i s) =
     (if activePolylineId s \<noteq> Some i then activePolylineId s
      else (case filter (\<lambda>p. pl_id p \<noteq> i) (polylines s) of [] \<Rightarrow> None | p # _ \<Rightarrow> Some (pl_id p))) \<and>
   isDrawingPolyline (handleDeletePolyline i s) =
     (if activePolylineId s = Some i then False else isDrawingPolyline s)"
  by (simp add: handleDeletePolyline_def)

lemma delete_modal:
  "w_polylines (deleteLine i w) = filter (\<lambda>p. pl_id p \<noteq> i) (w_polylines w) \<and>
   w_activeId (deleteLine i w) = (if w_activeId w = Some i then None else w_activeId w) \<and>
   w_isDrawing (deleteLine i w) = (if w_activeId w = Some i then False else w_isDrawing w) \<and>
   w_open (deleteLine i w) = w_open w"
  by (simp add: deleteLine_def)

text \<open>
  Claim C6, as stated: in the wheel modal, deleting the active polyline \<open>a\<close> of the two
  polylines \<open>a\<close>, \<open>b\<close> leaves \<open>b\<close> and sets the active reference to \<open>null\<close>, not to \<open>b\<close>.
\<close>

theorem deleteLine_clears_active_counterexample:
  "w_activeId example_modal = Some ''a'' \<and>
   map pl_id (w_polylines (deleteLine ''a'' example_modal)) = [''b''] \<and>
   w_activeId (deleteLine ''a'' example_modal) = None"
  by (simp add: deleteLine_def example_modal_def example_polyline_def)

text \<open>
  Claim C6, amended. Deleting by id removes every polyline with that id and keeps the
  others in order. In \<open>Home\<close>, if the deleted polyline was the active one, the active
  reference becomes the first remaining polyline of the list (\<open>null\<close> if none remains)
  and drawing is switched off, in the same handler; otherwise both are unchanged. In the
  wheel modal, deleting the active polyline sets the active reference to \<open>null\<close> and
  switches drawing off; the first remaining polyline is selected only by the effect
  that runs afterwards while the modal is open.
\<close>

theorem delete_polyline_active_reference:
  "polylines (handleDeletePolyline i s) = filter (\<lambda>p. pl_id p \<noteq> i) (polylines s) \<and>
   (\<forall>p\<in>set (polylines (handleDeletePolyline i s)). pl_id p \<noteq> i) \<and>
   (activePolylineId s = Some i \<longrightarrow>
      activePolylineId (handleDeletePolyline i s) =
        (case polylines (handleDeletePolyline i s) of [] \<Rightarrow> None | p # _ \<Rightarrow> Some (pl_id p)) \<and>
      \<not> isDrawingPolyline (handleDeletePolyline i s)) \<and>
   (activePolylineId s \<noteq> Some i \<longrightarrow>
      activePolylineId (handleDeletePolyline i s) = activePolylineId s \<and>
      isDrawingPolyline (handleDeletePolyline i s) = isDrawingPolyline s) \<and>
   w_polylines (deleteLine i w) = filter (\<lambda>p. pl_id p \<noteq> i) (w_polylines w) \<and>
   (w_activeId w = Some i \<longrightarrow>
      w_activeId (deleteLine i w) = None \<and> \<not> w_isDrawing (deleteLine i w) \<and>
      (w_open w \<longrightarrow>
         w_activeId (syncActive (deleteLine i w)) =
           (case w_polylines (deleteLine i w) of [] \<Rightarrow> None | p # _ \<Rightarrow> Some (pl_id p)))) \<and>
   (w_activeId w \<noteq> Some i \<longrightarrow>
      w_activeId (deleteLine i w) = w_activeId w \<and>
      w_isDrawing (deleteLine i w) = w_isDrawing w)"
  using delete_home[of i s] delete_modal[of i w]
  by (auto simp: syncActive_def)

theorem delete_polyline_active_reference_witness:
  "activePolylineId (example_page\<lparr>polylines := [example_polyline ''a'', example_polyline ''b''],
      activePolylineId := Some ''a'', isDrawingPolyline := True\<rparr>) = Some ''a'' \<and>
   activePolylineId (handleDeletePolyline ''a''
     (example_page\<lparr>polylines := [example_polyline ''a'', example_polyline ''b''],
        activePolylineId := Some ''a'', isDrawingPolyline := True\<rparr>)) = Some ''b'' \<and>
   \<not> isDrawingPolyline (handleDeletePolyline ''a''
     (example_page\<lparr>polylines := [example_polyline ''a'', example_polyline ''b''],
        activePolylineId := Some ''a'', isDrawingPolyline := True\<rparr>)) \<and>
   activePolylineId (handleDeletePolyline ''b''
     (example_page\<lparr>polylines := [example_polyline ''a'', example_polyline ''b''],
        activePolylineId := Some ''a'', isDrawingPolyline := True\<rparr>)) = Some ''a'' \<and>
   w_activeId example_modal = Some ''a'' \<and> w_open example_modal \<and>
   w_activeId (syncActive (deleteLine ''a'' example_modal)) = Some ''b'' \<and>
   w_activeId (deleteLine ''b'' example_modal) = Some ''a''"
  using delete_polyline_active_reference[where i = "''a''" and w = example_modal
      and s = "example_page\<lparr>polylines := [example_polyline ''a'', example_polyline ''b''],
        activePolylineId := Some ''a'', isDrawingPolyline := True\<rparr>"]
    delete_polyline_active_reference[where i = "''b''" and w = example_modal
      and s = "example_page\<lparr>polylines := [example_polyline ''a'', example_polyline ''b''],
        activePolylineId := Some ''a'', isDrawingPolyline := True\<rparr>"]
  by (simp add: example_page_def example_modal_def example_polyline_def)


section \<open>Drawing a polyline\<close>

lemma captured_session_polylines:
  "polylines (captured_session stamp lineLabel pa pb s) =
     map (\<lambda>poly. if pl_id poly = ''poly-'' @ stamp
                  then poly\<lparr>pl_points := pl_points poly @ [pa, pb]\<rparr> else poly) (polylines s) @
     [\<lparr>pl_id = ''poly-'' @ stamp, pl_label = lineLabel (length (polylines s) + 1),
       pl_description = [], pl_color = Cyan, pl_strokeWidth = Fin (7 / 10),
       pl_dashStyle = Solid, pl_points = [pa, pb]\<rparr>]"
  by (simp add: captured_session_def handleFinishPolyline_def handleAddPolylinePointFromCanvas_def
      handleStartPolyline_def Let_def no_id_def)

lemma captured_session_drawing: "\<not> isDrawingPolyline (captured_session stamp lineLabel pa pb s)"
  by (simp add: captured_session_def handleFinishPolyline_def)

lemma pointer_moves_keep_polylines:
  "polylines (handleMouseMoveOnCanvas svg x y s) = polylines s \<and>
   polylines (onMouseLeaveCanvas s) = polylines s"
  by (simp add: handleMouseMoveOnCanvas_def onMouseLeaveCanvas_def split: option.splits)

text \<open>
  Claim C5. The session \<open>start\<close>, \<open>point\<close>, \<open>point\<close>, \<open>finish\<close> is to leave one new
  polyline with exactly the two captured points, and the preview point is never to be
  in the committed list. On the canvas of \<open>Home\<close> a click commits the preview point
  whenever one is set, and \<open>handleFinishPolyline\<close> does not clear it. The image is 1000
  by 500 pixels at the origin. After \<open>start\<close>, a move to and a click at client
  (200, 100), a move to and a click at client (500, 250), and \<open>finish\<close>, the committed
  list is (20, 20), (50, 50) and the preview point is still (50, 50): it is in the list.
  It is cleared only when the pointer leaves the canvas first. Left set, it is what the
  first click of the next session commits: a click at client (800, 400), which is
  (80, 80), adds (50, 50) to the new polyline. The wheel modal does what the claim says:
  its click commits the position of the click, whatever the preview point is, and its
  \<open>finishLine\<close> clears the preview point.
\<close>

theorem stale_preview_point_committed:
  "previewPoint (drawing_run (\<lambda>n. ''Line'') example_page
     [Start ''1'', Move (Some example_rect) (Fin 200) (Fin 100),
      Click (Some example_rect) (Fin 200) (Fin 100),
      Move (Some example_rect) (Fin 500) (Fin 250),
      Click (Some example_rect) (Fin 500) (Fin 250), Finish])
     = Some \<lparr>pt_x = Fin 50, pt_y = Fin 50\<rparr> \<and>
   map pl_points (polylines (drawing_run (\<lambda>n. ''Line'') example_page
     [Start ''1'', Move (Some example_rect) (Fin 200) (Fin 100),
      Click (Some example_rect) (Fin 200) (Fin 100),
      Move (Some example_rect) (Fin 500) (Fin 250),
      Click (Some example_rect) (Fin 500) (Fin 250), Finish]))
     = [[\<lparr>pt_x = Fin 20, pt_y = Fin 20\<rparr>, \<lparr>pt_x = Fin 50, pt_y = Fin 50\<rparr>]] \<and>
   previewPoint (drawing_run (\<lambda>n. ''Line'') example_page
     [Start ''1'', Move (Some example_rect) (Fin 200) (Fin 100),
      Click (Some example_rect) (Fin 200) (Fin 100),
      Move (Some example_rect) (Fin 500) (Fin 250),
      Click (Some example_rect) (Fin 500) (Fin 250), Leave, Finish])
     = None \<and>
   clientToSvgPercent (Some example_rect) (Fin 800) (Fin 400)
     = Some \<lparr>pt_x = Fin 80, pt_y = Fin 80\<rparr> \<and>
   map pl_points (polylines (drawing_run (\<lambda>n. ''Line'') example_page
     [Start ''1'', Move (Some example_rect) (Fin 200) (Fin 100),
      Click (Some example_rect) (Fin 200) (Fin 100),
      Move (Some example_rect) (Fin 500) (Fin 250),
      Click (Some example_rect) (Fin 500) (Fin 250), Finish,
      Start ''2'', Click (Some example_rect) (Fin 800) (Fin 400), Finish]))
     = [[\<lparr>pt_x = Fin 20, pt_y = Fin 20\<rparr>, \<lparr>pt_x = Fin 50, pt_y = Fin 50\<rparr>],
        [\<lparr>pt_x = Fin 50, pt_y = Fin 50\<rparr>]] \<and>
   map pl_points (w_polylines (handleContainerClick (Some example_rect) (Fin 800) (Fin 400)
     (example_modal\<lparr>w_previewPoint := Some \<lparr>pt_x = Fin 50, pt_y = Fin 50\<rparr>\<rparr>)))
     = [[\<lparr>pt_x = Fin 80, pt_y = Fin 80\<rparr>], []] \<and>
   w_previewPoint (finishLine (example_modal\<lparr>w_previewPoint := Some \<lparr>pt_x = Fin 50, pt_y = Fin 50\<rparr>\<rparr>))
     = None"
  by (simp add: drawing_run_def example_page_def example_rect_def handleStartPolyline_def
      handleMouseMoveOnCanvas_def handleCanvasClick_def handleAddPolylinePointFromCanvas_def
      handleFinishPolyline_def onMouseLeaveCanvas_def no_id_def Let_def clientToSvgPercent_def
      percent_of_def js_sub_def clampPercent_def js_gt_def handleContainerClick_def
      finishLine_def example_modal_def example_polyline_def)

theorem stale_preview_point_committed_witness:
  "isEditMode example_page \<and> w_isEditMode example_modal \<and> w_isDrawing example_modal \<and>
   previewPoint (drawing_run (\<lambda>n. ''Line'') example_page
     [Start ''1'', Move (Some example_rect) (Fin 200) (Fin 100),
      Click (Some example_rect) (Fin 200) (Fin 100),
      Move (Some example_rect) (Fin 500) (Fin 250),
      Click (Some example_rect) (Fin 500) (Fin 250), Finish])
     = Some \<lparr>pt_x = Fin 50, pt_y = Fin 50\<rparr>"
  using stale_preview_point_committed by (simp add: example_page_def example_modal_def)

end
